theory Spec2Isabelle
  imports Complex_Main "HOL-Library.Sublist" "HOL-Library.AList"
begin

section \<open>Strings of the handler (src/index.mjs)\<close>

text \<open>
  A JavaScript string is modelled as a \<^typ>\<open>string\<close>: a list of characters, one
  \<^typ>\<open>char\<close> per code unit, for the code units 0 to 255 (Basic Latin and Latin-1
  Supplement), which is the range HOL's characters have. On that range \<open>toLowerCase\<close>
  maps each code unit by itself: the letters A to Z, and the Latin-1 capitals 0xC0 to 0xDE
  other than the multiplication sign 0xD7, move up by 32; every other code unit stays.
  The white space and line terminators that \<open>trim\<close> strips are, on that range, TAB,
  LF, VT, FF, CR, SPACE and the no-break space 0xA0.
\<close>

definition toLowerCase_chr :: "char \<Rightarrow> char" where
  "toLowerCase_chr c =
     (let n = (of_char c :: nat)
      in if 0x41 \<le> n \<and> n \<le> 0x5A \<or> 0xC0 \<le> n \<and> n \<le> 0xD6 \<or> 0xD8 \<le> n \<and> n \<le> 0xDE
         then char_of (n + 32) else c)"

definition toLowerCase :: "string \<Rightarrow> string" where
  "toLowerCase s = map toLowerCase_chr s"

definition isWhiteSpace :: "char \<Rightarrow> bool" where
  "isWhiteSpace c \<longleftrightarrow>
     c \<in> set [CHR 0x09, CHR 0x0A, CHR 0x0B, CHR 0x0C, CHR 0x0D, CHR 0x20, CHR 0xA0]"

definition trim :: "string \<Rightarrow> string" where
  "trim s = rev (dropWhile isWhiteSpace (rev (dropWhile isWhiteSpace s)))"

text \<open>\<open>s.includes(t)\<close>: \<open>t\<close> occurs in \<open>s\<close> as a run of consecutive characters.\<close>

fun includes_str :: "string \<Rightarrow> string \<Rightarrow> bool" where
  "includes_str [] t = (t = [])"
| "includes_str (c # cs) t = (prefix t (c # cs) \<or> includes_str cs t)"

text \<open>\<open>s.indexOf(c)\<close> and \<open>s.lastIndexOf(c)\<close> for a one-character needle; -1 when absent.\<close>

fun indexOf :: "string \<Rightarrow> char \<Rightarrow> int" where
  "indexOf [] c = -1"
| "indexOf (x # xs) c =
     (if x = c then 0 else (let i = indexOf xs c in if i = -1 then -1 else i + 1))"

definition lastIndexOf :: "string \<Rightarrow> char \<Rightarrow> int" where
  "lastIndexOf s c =
     (let i = indexOf (rev s) c in if i = -1 then -1 else int (length s) - 1 - i)"

text \<open>
  \<open>s.substring(a, b)\<close>: both indices are clamped to \<open>[0, length]\<close> and swapped when
  the first is the larger.
\<close>

definition substring :: "string \<Rightarrow> int \<Rightarrow> int \<Rightarrow> string" where
  "substring s a b =
     (let n = int (length s);
          a' = max 0 (min a n);
          b' = max 0 (min b n);
          lo = min a' b';
          hi = max a' b'
      in take (nat (hi - lo)) (drop (nat lo) s))"

text \<open>Line 138.\<close>

definition normalizeName :: "string \<Rightarrow> string" where
  "normalizeName name = toLowerCase (trim name)"

section \<open>JSON values\<close>

text \<open>
  The values \<open>JSON.parse\<close> and \<open>unmarshall\<close> produce. An object is an association
  list in property order; a property is read with \<^const>\<open>map_of\<close> and assigned with
  \<^const>\<open>AList.update\<close>, which overwrites in place or appends, as a JavaScript
  assignment does. No check of the handler reads a number, except for its truthiness.
\<close>

datatype json =
    JNull
  | JBool bool
  | JNum rat
  | JStr string
  | JArr "json list"
  | JObj "(string \<times> json) list"

datatype js_error = TypeError

text \<open>\<open>obj.key\<close> on a value that is known not to be \<open>null\<close>; \<open>None\<close> is \<open>undefined\<close>.\<close>

fun get_prop :: "json \<Rightarrow> string \<Rightarrow> json option" where
  "get_prop (JObj kvs) k = map_of kvs k"
| "get_prop _ k = None"

text \<open>Truthiness of a possibly undefined value, as \<open>||\<close> and \<open>if\<close> read it.\<close>

fun truthy :: "json \<Rightarrow> bool" where
  "truthy JNull = False"
| "truthy (JBool b) = b"
| "truthy (JNum n) = (n \<noteq> 0)"
| "truthy (JStr s) = (s \<noteq> [])"
| "truthy (JArr _) = True"
| "truthy (JObj _) = True"

section \<open>Consumability (lines 140-182)\<close>

definition nonConsumableCategories :: "string list" where
  "nonConsumableCategories =
     [''poison'', ''chemical'', ''non-food'', ''cleaning agent'', ''toxic substance'',
      ''metal'', ''plastic'', ''drug'', ''medicine'', ''insecticide'', ''herbicide'',
      ''fungicide'', ''fertilizer'', ''petroleum'', ''non-edible'', ''radioactive'',
      ''synthetic compound'', ''material'', ''alloy'', ''paint'', ''solvent'',
      ''detergent'', ''adhesive'', ''lubricant'', ''pesticide'', ''disinfectant'',
      ''explosive'', ''gas'', ''element'', ''rock'', ''gemstone'', ''crystal'']"

text \<open>
  \<open>itemData.Category || ""\<close>: the property when it is truthy, the empty string
  otherwise. The result is a string unless the property is a truthy value of another
  type, on which \<open>category.toLowerCase\<close> is not a function.
\<close>

definition category_or_empty :: "json \<Rightarrow> json" where
  "category_or_empty itemData =
     (case get_prop itemData ''Category'' of
        None \<Rightarrow> JStr ''''
      | Some v \<Rightarrow> if truthy v then v else JStr '''')"

definition isConsumableIngredient :: "json \<Rightarrow> js_error + bool" where
  "isConsumableIngredient itemData =
     (if itemData = JNull then Inl TypeError
      else if get_prop itemData ''ItemType'' \<noteq> Some (JStr ''ingredient'') then Inr True
      else case category_or_empty itemData of
             JStr category \<Rightarrow>
               Inr (\<not> list_ex (\<lambda>cat. includes_str (toLowerCase category) cat)
                               nonConsumableCategories)
           | _ \<Rightarrow> Inl TypeError)"

section \<open>Cache (lines 184-201)\<close>

text \<open>
  The module-level object \<open>cache\<close> is threaded through explicitly, and the reading of
  \<open>Date.now()\<close> is an argument. An entry is the pair of \<open>data\<close> and \<open>timestamp\<close>;
  the value \<open>null\<close> that \<open>getCachedResponse\<close> returns is \<^const>\<open>JNull\<close>.
\<close>

type_synonym cache = "string \<rightharpoonup> json \<times> int"

definition CACHE_TTL :: int where
  "CACHE_TTL = 60 * 60 * 1000"

definition getCachedResponse :: "int \<Rightarrow> string \<Rightarrow> cache \<Rightarrow> json \<times> cache" where
  "getCachedResponse now key c =
     (case c key of
        Some (data, timestamp) \<Rightarrow>
          if now - timestamp < CACHE_TTL then (data, c) else (JNull, c)
      | None \<Rightarrow> (JNull, c))"

definition setCachedResponse :: "int \<Rightarrow> string \<Rightarrow> json \<Rightarrow> cache \<Rightarrow> cache" where
  "setCachedResponse now key data c = c(key \<mapsto> (data, now))"

section \<open>Schema validation (lines 9-11, 34-132)\<close>

text \<open>
  The two schemas are data handed to the validator library, which is not part of the
  repository. Its behaviour on the keywords that occur in them is the one of JSON Schema
  draft-07: a schema object is the conjunction of its keywords; \<open>type\<close> tests the kind
  of the value; \<open>enum\<close> asks for a listed value; \<open>oneOf\<close> for exactly one matching
  branch; \<open>properties\<close>, \<open>required\<close> and \<open>additionalProperties\<close> constrain objects
  and accept everything else; \<open>items\<close> constrains the elements of an array; \<open>format\<close>
  constrains strings. The predicates behind the format names come from a second library
  and are an argument of the validator.
\<close>

datatype jtype = TString | TObject | TArray

datatype schema = Schema "keyword list"
and keyword =
    Type jtype
  | Enum "json list"
  | OneOf "schema list"
  | Properties "(string \<times> schema) list"
  | Required "string list"
  | AdditionalProperties bool
  | Items schema
  | Format string

type_synonym formats = "string \<Rightarrow> string \<Rightarrow> bool"

fun has_type :: "jtype \<Rightarrow> json \<Rightarrow> bool" where
  "has_type TString v = (case v of JStr _ \<Rightarrow> True | _ \<Rightarrow> False)"
| "has_type TObject v = (case v of JObj _ \<Rightarrow> True | _ \<Rightarrow> False)"
| "has_type TArray v = (case v of JArr _ \<Rightarrow> True | _ \<Rightarrow> False)"

text \<open>The names that the \<open>properties\<close> keyword of a schema object declares.\<close>

fun declared :: "keyword list \<Rightarrow> string list" where
  "declared [] = []"
| "declared (Properties ps # kws) = map fst ps @ declared kws"
| "declared (_ # kws) = declared kws"

fun validate :: "formats \<Rightarrow> schema \<Rightarrow> json \<Rightarrow> bool"
and validate_kw :: "formats \<Rightarrow> string list \<Rightarrow> keyword \<Rightarrow> json \<Rightarrow> bool" where
  "validate fm (Schema kws) v = list_all (\<lambda>kw. validate_kw fm (declared kws) kw v) kws"
| "validate_kw fm names (Type t) v = has_type t v"
| "validate_kw fm names (Enum vs) v = (v \<in> set vs)"
| "validate_kw fm names (OneOf ss) v = (length (filter (\<lambda>s. validate fm s v) ss) = 1)"
| "validate_kw fm names (Properties ps) v =
     (case v of
        JObj kvs \<Rightarrow>
          list_all (\<lambda>(k, s). case map_of kvs k of None \<Rightarrow> True | Some x \<Rightarrow> validate fm s x) ps
      | _ \<Rightarrow> True)"
| "validate_kw fm names (Required rs) v =
     (case v of JObj kvs \<Rightarrow> list_all (\<lambda>r. map_of kvs r \<noteq> None) rs | _ \<Rightarrow> True)"
| "validate_kw fm names (AdditionalProperties b) v =
     (case v of JObj kvs \<Rightarrow> b \<or> list_all (\<lambda>k. k \<in> set names) (map fst kvs) | _ \<Rightarrow> True)"
| "validate_kw fm names (Items s) v =
     (case v of JArr xs \<Rightarrow> list_all (validate fm s) xs | _ \<Rightarrow> True)"
| "validate_kw fm names (Format f) v = (case v of JStr x \<Rightarrow> fm f x | _ \<Rightarrow> True)"

text \<open>Lines 34-115; \<open>inputSchema.properties\<close> is named, since line 121 spreads it.\<close>

definition inputSchema_properties :: "(string \<times> schema) list" where
  "inputSchema_properties =
     [(''ItemType'', Schema [Type TString, Enum [JStr ''ingredient'', JStr ''nutrient'']]),
      (''Name'',
         Schema [OneOf
           [Schema [Type TString],
            Schema [Type TObject,
                    Properties [(''English'', Schema [Type TString]),
                                (''Chinese'', Schema [Type TString]),
                                (''Spanish'', Schema [Type TString])],
                    Required [''English''],
                    AdditionalProperties False]]]),
      (''AlternateNames'', Schema [Type TArray, Items (Schema [Type TString])]),
      (''Description'',
         Schema [OneOf
           [Schema [Type TString],
            Schema [Type TObject,
                    Properties [(''English'', Schema [Type TString]),
                                (''Chinese'', Schema [Type TString]),
                                (''Spanish'', Schema [Type TString])],
                    Required [''English''],
                    AdditionalProperties False]]]),
      (''YinYangClassification'',
         Schema [Type TString,
                 Enum [JStr ''Yin (Cold)'', JStr ''Yin (Cool)'', JStr ''Neutral'',
                       JStr ''Yang (Warm)'', JStr ''Yang (Hot)'']]),
      (''FiveElements'', Schema [Type TString]),
      (''Category'', Schema [Type TString]),
      (''FlavorProfile'', Schema [Type TArray, Items (Schema [Type TString])]),
      (''MedicinalProperties'', Schema [Type TArray, Items (Schema [Type TString])]),
      (''CommonCulinaryUses'', Schema [Type TArray, Items (Schema [Type TString])]),
      (''OriginRegion'', Schema [Type TString]),
      (''SeasonalAvailability'', Schema [Type TString]),
      (''NutritionalInformation'', Schema [Type TObject, AdditionalProperties True]),
      (''AllergenInformation'', Schema [Type TString]),
      (''PreparationTips'', Schema [Type TArray, Items (Schema [Type TString])]),
      (''DietaryRestrictions'', Schema [Type TArray, Items (Schema [Type TString])]),
      (''SubstituteIngredients'', Schema [Type TArray, Items (Schema [Type TString])]),
      (''StorageMethods'', Schema [Type TObject, AdditionalProperties True]),
      (''CulinaryTechniques'', Schema [Type TArray, Items (Schema [Type TString])]),
      (''CulturalSignificance'', Schema [Type TObject, AdditionalProperties True]),
      (''HistoricalUsage'', Schema [Type TObject, AdditionalProperties True]),
      (''EnvironmentalImpact'', Schema [Type TObject, AdditionalProperties True]),
      (''TCMInformation'',
         Schema [Type TObject,
                 Properties [(''Functions'', Schema [Type TArray, Items (Schema [Type TString])]),
                             (''HerbalFormulations'',
                                Schema [Type TArray, Items (Schema [Type TString])]),
                             (''Meridians'', Schema [Type TArray, Items (Schema [Type TString])])],
                 Required [''Functions''],
                 AdditionalProperties False]),
      (''Type'',
         Schema [Type TString, Enum [JStr ''vitamin'', JStr ''mineral'', JStr ''other'']]),
      (''Functions'', Schema [Type TArray, Items (Schema [Type TString])]),
      (''Sources'', Schema [Type TArray, Items (Schema [Type TString])]),
      (''RecommendedDailyIntake'', Schema [Type TString]),
      (''DeficiencySymptoms'', Schema [Type TArray, Items (Schema [Type TString])]),
      (''ExcessSymptoms'', Schema [Type TArray, Items (Schema [Type TString])]),
      (''TopFoodSources'', Schema [Type TArray, Items (Schema [Type TString])])]"

definition inputSchema :: schema where
  "inputSchema =
     Schema [Type TObject,
             Properties inputSchema_properties,
             Required [''ItemType'', ''Name''],
             AdditionalProperties False]"

text \<open>Lines 118-128.\<close>

definition storageSchema :: schema where
  "storageSchema =
     Schema [Type TObject,
             Properties (inputSchema_properties @
               [(''ItemID'', Schema [Type TString]),
                (''DateAdded'', Schema [Type TString, Format ''date-time'']),
                (''NameLowercase'', Schema [Type TString])]),
             Required [''ItemType'', ''Name'', ''ItemID'', ''DateAdded'', ''NameLowercase''],
             AdditionalProperties False]"

text \<open>Lines 131-132.\<close>

definition validateInput :: "formats \<Rightarrow> json \<Rightarrow> bool" where
  "validateInput fm data = validate fm inputSchema data"

definition validateStorage :: "formats \<Rightarrow> json \<Rightarrow> bool" where
  "validateStorage fm data = validate fm storageSchema data"

section \<open>The handler (lines 204-557)\<close>

text \<open>
  What one run of the handler receives from outside the module is collected in a
  \<open>world\<close>: the digest function, the two readings of \<open>Date.now()\<close> (in
  \<open>getCachedResponse\<close> and in \<open>setCachedResponse\<close>), the outcome of the index query for
  a key, the reply of the chat completion for a search term, \<open>JSON.parse\<close>, the fresh
  identifier, the timestamp text, the outcome of the conditional put of an item, and the
  format predicates of the validator. An outcome that is an exception is a value:
  \<open>QueryThrows\<close> stands for any exception of lines 245-261, \<open>None\<close> of the completion
  for any exception of lines 282-398, \<open>None\<close> of \<open>JSON.parse\<close> for its SyntaxError,
  \<open>MarshallThrows\<close> for an exception of lines 512-516 and \<open>PutThrows\<close> for one of line 519.
  Items come back from the store already unmarshalled.
\<close>

datatype query_outcome = QueryThrows | QueryItems "json list option"

datatype put_outcome = PutDone | MarshallThrows | PutThrows

record world =
  sha256_hex :: "string \<Rightarrow> string"
  now_get :: int
  now_set :: int
  query_by_name :: "string \<Rightarrow> query_outcome"
  chat_completion :: "string \<Rightarrow> string option"
  JSON_parse :: "string \<Rightarrow> json option"
  randomUUID :: string
  toISOString :: string
  put_item :: "json \<Rightarrow> put_outcome"
  ajv_formats :: formats

text \<open>The request: \<open>event.queryStringParameters\<close> is \<open>null\<close> or an object of strings.\<close>

record event =
  queryStringParameters :: "(string \<times> string) list option"

record response =
  statusCode :: nat
  headers :: "(string \<times> json) list"
  body :: json

text \<open>
  The handler's steps that the claims speak of are recorded, in the order in which a run
  takes them, next to the response and the cache the run leaves behind.
\<close>

datatype effect =
    CacheGet string
  | StoreQuery string
  | Generate string
  | Parse string
  | ValidateInput json
  | CheckConsumable json
  | ValidateStorage json
  | StorePut json
  | CacheSet string json

type_synonym outcome = "response \<times> cache \<times> effect list"

definition cors_headers :: "(string \<times> json) list" where
  "cors_headers =
     [(''Access-Control-Allow-Origin'', JStr ''*''),
      (''Access-Control-Allow-Credentials'', JBool True)]"

definition error_body :: "string \<Rightarrow> json" where
  "error_body msg = JObj [(''error'', JStr msg)]"

definition found_body :: "bool \<Rightarrow> json \<Rightarrow> json" where
  "found_body found item = JObj [(''found'', JBool found), (''item'', item)]"

text \<open>Lines 546-555: the outermost \<open>catch\<close>.\<close>

definition internal_error :: response where
  "internal_error =
     \<lparr>statusCode = 500, headers = cors_headers,
      body = error_body ''Internal server error.''\<rparr>"

definition not_consumable :: "string \<Rightarrow> response" where
  "not_consumable searchName =
     \<lparr>statusCode = 404, headers = cors_headers,
      body = error_body (searchName @ '' is not a valid consumable food item or nutrient.'')\<rparr>"

text \<open>Lines 511-544.\<close>

definition save_item :: "world \<Rightarrow> string \<Rightarrow> json \<Rightarrow> cache \<Rightarrow> effect list \<Rightarrow> outcome" where
  "save_item w cacheKey itemData c tr =
     (case put_item w itemData of
        MarshallThrows \<Rightarrow> (internal_error, c, tr)
      | PutThrows \<Rightarrow>
          (\<lparr>statusCode = 500, headers = cors_headers,
            body = error_body ''Failed to save item data.''\<rparr>,
           c, tr @ [StorePut itemData])
      | PutDone \<Rightarrow>
          (\<lparr>statusCode = 200, headers = cors_headers, body = found_body False itemData\<rparr>,
           setCachedResponse (now_set w) cacheKey itemData c,
           tr @ [StorePut itemData, CacheSet cacheKey itemData]))"

text \<open>
  Lines 487-490. The three assignments are made on a value that \<open>validateInput\<close> has
  accepted, which is an object; on anything else the run ends in the outermost \<open>catch\<close>.
\<close>

definition assign_system_fields :: "world \<Rightarrow> string \<Rightarrow> json \<Rightarrow> js_error + json" where
  "assign_system_fields w normalizedSearchName itemData =
     (case itemData of
        JObj kvs \<Rightarrow>
          Inr (JObj (AList.update ''NameLowercase'' (JStr normalizedSearchName)
                    (AList.update ''DateAdded'' (JStr (toISOString w))
                    (AList.update ''ItemID'' (JStr (randomUUID w)) kvs))))
      | _ \<Rightarrow> Inl TypeError)"

text \<open>Lines 453-509.\<close>

definition check_item ::
  "world \<Rightarrow> string \<Rightarrow> string \<Rightarrow> string \<Rightarrow> json \<Rightarrow> cache \<Rightarrow> effect list \<Rightarrow> outcome" where
  "check_item w searchName normalizedSearchName cacheKey itemData c tr =
     (if \<not> validateInput (ajv_formats w) itemData then
        (\<lparr>statusCode = 500, headers = cors_headers,
          body = error_body ''Invalid data format received from external service.''\<rparr>,
         c, tr @ [ValidateInput itemData])
      else
        (case isConsumableIngredient itemData of
          Inl e \<Rightarrow> (internal_error, c, tr @ [ValidateInput itemData, CheckConsumable itemData])
        | Inr False \<Rightarrow>
            (not_consumable searchName, c,
             tr @ [ValidateInput itemData, CheckConsumable itemData])
        | Inr True \<Rightarrow>
            (case assign_system_fields w normalizedSearchName itemData of
               Inl e \<Rightarrow>
                 (internal_error, c, tr @ [ValidateInput itemData, CheckConsumable itemData])
             | Inr stored \<Rightarrow>
                 if \<not> validateStorage (ajv_formats w) stored then
                   (\<lparr>statusCode = 500, headers = cors_headers,
                     body = error_body ''Invalid data format after adding system fields.''\<rparr>,
                    c,
                    tr @ [ValidateInput itemData, CheckConsumable itemData,
                          ValidateStorage stored])
                 else
                   save_item w cacheKey stored c
                     (tr @ [ValidateInput itemData, CheckConsumable itemData,
                            ValidateStorage stored]))))"

text \<open>Line 412: the marker \<open>"error":\<close>, quotation marks included.\<close>

definition error_marker :: string where
  "error_marker = CHR 0x22 # ''error'' @ [CHR 0x22, CHR '':'']"

text \<open>Lines 411-451, then the checks above.\<close>

definition read_reply ::
  "world \<Rightarrow> string \<Rightarrow> string \<Rightarrow> string \<Rightarrow> string \<Rightarrow> cache \<Rightarrow> effect list \<Rightarrow> outcome" where
  "read_reply w searchName normalizedSearchName cacheKey openAIResponseContent c tr =
     (if includes_str (toLowerCase openAIResponseContent) error_marker then
        (not_consumable searchName, c, tr)
      else
        let jsonStart = indexOf openAIResponseContent CHR ''{'';
            jsonEnd = lastIndexOf openAIResponseContent CHR ''}'';
            parse_failed =
              \<lparr>statusCode = 500, headers = cors_headers,
               body = error_body ''Failed to parse data from external service.''\<rparr>
        in if jsonStart = -1 \<or> jsonEnd = -1 then (parse_failed, c, tr)
           else
             let jsonString = substring openAIResponseContent jsonStart (jsonEnd + 1)
             in case JSON_parse w jsonString of
                  None \<Rightarrow> (parse_failed, c, tr @ [Parse jsonString])
                | Some itemData \<Rightarrow>
                    check_item w searchName normalizedSearchName cacheKey itemData c
                      (tr @ [Parse jsonString]))"

text \<open>Lines 273-409, then the reading of the reply.\<close>

definition ask_openai ::
  "world \<Rightarrow> string \<Rightarrow> string \<Rightarrow> string \<Rightarrow> cache \<Rightarrow> effect list \<Rightarrow> outcome" where
  "ask_openai w searchName normalizedSearchName cacheKey c tr =
     (case chat_completion w searchName of
        None \<Rightarrow>
          (\<lparr>statusCode = 502, headers = cors_headers,
            body = error_body ''Failed to retrieve data from external service.''\<rparr>,
           c, tr @ [Generate searchName])
      | Some content \<Rightarrow>
          read_reply w searchName normalizedSearchName cacheKey (trim content) c
            (tr @ [Generate searchName]))"

text \<open>Lines 209-210: \<open>queryParams && queryParams.name\<close>; \<open>None\<close> is \<open>null\<close> or \<open>undefined\<close>.\<close>

definition searchName_of :: "event \<Rightarrow> string option" where
  "searchName_of ev =
     (case queryStringParameters ev of None \<Rightarrow> None | Some ps \<Rightarrow> map_of ps ''name'')"

text \<open>Lines 204-272 and the branches above.\<close>

definition handler :: "world \<Rightarrow> event \<Rightarrow> cache \<Rightarrow> outcome" where
  "handler w ev c =
     (case searchName_of ev of
        None \<Rightarrow>
          (\<lparr>statusCode = 400, headers = cors_headers,
            body = error_body ''Search name is required.''\<rparr>, c, [])
      | Some searchName \<Rightarrow>
          if searchName = [] then
            (\<lparr>statusCode = 400, headers = cors_headers,
              body = error_body ''Search name is required.''\<rparr>, c, [])
          else
            let normalizedSearchName = normalizeName searchName;
                cacheKey = sha256_hex w normalizedSearchName;
                got = getCachedResponse (now_get w) cacheKey c;
                cachedData = fst got;
                c1 = snd got
            in if truthy cachedData then
                 (\<lparr>statusCode = 200, headers = cors_headers,
                   body = found_body True cachedData\<rparr>, c1, [CacheGet cacheKey])
               else
                 (case query_by_name w normalizedSearchName of
                    QueryThrows \<Rightarrow>
                      (internal_error, c1, [CacheGet cacheKey, StoreQuery normalizedSearchName])
                  | QueryItems (Some (itemData # _)) \<Rightarrow>
                      (\<lparr>statusCode = 200, headers = cors_headers,
                        body = found_body True itemData\<rparr>,
                       setCachedResponse (now_set w) cacheKey itemData c1,
                       [CacheGet cacheKey, StoreQuery normalizedSearchName,
                        CacheSet cacheKey itemData])
                  | QueryItems _ \<Rightarrow>
                      ask_openai w searchName normalizedSearchName cacheKey c1
                        [CacheGet cacheKey, StoreQuery normalizedSearchName]))"

section \<open>Notation for the statements and values for the examples\<close>

text \<open>A format registry that accepts every string under every format name.\<close>

definition accept_all :: formats where
  "accept_all name s = True"

text \<open>
  The values a run computes from the search term, and the conditions under which a run
  gets as far as the store, the reply, the parsed item and the put.
\<close>

abbreviation cacheKey_of :: "world \<Rightarrow> string \<Rightarrow> string" where
  "cacheKey_of w n \<equiv> sha256_hex w (normalizeName n)"

abbreviation cachedData_of :: "world \<Rightarrow> string \<Rightarrow> cache \<Rightarrow> json" where
  "cachedData_of w n c \<equiv> fst (getCachedResponse (now_get w) (cacheKey_of w n) c)"

abbreviation jsonString_of :: "string \<Rightarrow> string" where
  "jsonString_of content \<equiv>
     substring content (indexOf content CHR ''{'') (lastIndexOf content CHR ''}'' + 1)"

abbreviation store_miss :: "world \<Rightarrow> string \<Rightarrow> bool" where
  "store_miss w n \<equiv> query_by_name w (normalizeName n) = QueryItems None \<or>
                     query_by_name w (normalizeName n) = QueryItems (Some [])"

abbreviation reached_store :: "world \<Rightarrow> event \<Rightarrow> cache \<Rightarrow> string \<Rightarrow> bool" where
  "reached_store w ev c n \<equiv> searchName_of ev = Some n \<and> n \<noteq> [] \<and> \<not> truthy (cachedData_of w n c)"

abbreviation reached_reply :: "world \<Rightarrow> event \<Rightarrow> cache \<Rightarrow> string \<Rightarrow> string \<Rightarrow> bool" where
  "reached_reply w ev c n content \<equiv>
     reached_store w ev c n \<and> store_miss w n \<and>
     (\<exists>reply. chat_completion w n = Some reply \<and> content = trim reply) \<and>
     \<not> includes_str (toLowerCase content) error_marker"

abbreviation reached_item :: "world \<Rightarrow> event \<Rightarrow> cache \<Rightarrow> string \<Rightarrow> string \<Rightarrow> json \<Rightarrow> bool" where
  "reached_item w ev c n content item \<equiv>
     reached_reply w ev c n content \<and>
     indexOf content CHR ''{'' \<noteq> -1 \<and> lastIndexOf content CHR ''}'' \<noteq> -1 \<and>
     JSON_parse w (jsonString_of content) = Some item"

abbreviation reached_put ::
  "world \<Rightarrow> event \<Rightarrow> cache \<Rightarrow> string \<Rightarrow> string \<Rightarrow> json \<Rightarrow> json \<Rightarrow> bool" where
  "reached_put w ev c n content item stored \<equiv>
     reached_item w ev c n content item \<and>
     validateInput (ajv_formats w) item \<and> isConsumableIngredient item = Inr True \<and>
     assign_system_fields w (normalizeName n) item = Inr stored \<and>
     validateStorage (ajv_formats w) stored"





text \<open>
  A world for the examples: the digest is stood in for by \<^const>\<open>rev\<close>, the clock reads
  zero, and the store, the generator, the parser and the put answer as given.
\<close>

definition demo_world ::
  "query_outcome \<Rightarrow> string option \<Rightarrow> (string \<Rightarrow> json option) \<Rightarrow> put_outcome \<Rightarrow> world" where
  "demo_world q reply parse put =
     \<lparr>sha256_hex = rev, now_get = 0, now_set = 0,
      query_by_name = (\<lambda>key. q),
      chat_completion = (\<lambda>searchName. reply),
      JSON_parse = parse,
      randomUUID = ''id-1'',
      toISOString = ''2024-01-01T00:00:00.000Z'',
      put_item = (\<lambda>item. put),
      ajv_formats = accept_all\<rparr>"

definition demo_event :: "string \<Rightarrow> event" where
  "demo_event name = \<lparr>queryStringParameters = Some [(''name'', name)]\<rparr>"

definition demo_item :: json where
  "demo_item = JObj [(''ItemType'', JStr ''nutrient''), (''Name'', JStr ''Iron'')]"

text \<open>The text \<open>{"ItemType":"nutrient","Name":"Iron"}\<close>, which the example parser reads.\<close>

definition demo_json :: string where
  "demo_json =
     ''{'' @ [CHR 0x22] @ ''ItemType'' @ [CHR 0x22] @ '':'' @ [CHR 0x22] @ ''nutrient'' @ [CHR 0x22] @
     '','' @ [CHR 0x22] @ ''Name'' @ [CHR 0x22] @ '':'' @ [CHR 0x22] @ ''Iron'' @ [CHR 0x22] @ ''}''"

definition demo_parse :: "string \<Rightarrow> json option" where
  "demo_parse s = (if s = demo_json then Some demo_item else None)"

definition demo_reply :: string where
  "demo_reply = ''Here it is: '' @ demo_json @ '' ''"


text \<open>The reply \<open>{"Error": 1}\<close> with a space on either side.\<close>

definition demo_error_reply :: string where
  "demo_error_reply = '' {'' @ [CHR 0x22] @ ''Error'' @ [CHR 0x22] @ '': 1} ''"

definition stored_world :: world where
  "stored_world = demo_world (QueryItems None) (Some demo_reply) demo_parse PutDone"

definition marker_world :: world where
  "marker_world = demo_world (QueryItems (Some [])) (Some demo_error_reply) Map.empty PutThrows"

definition down_world :: world where
  "down_world = demo_world QueryThrows None Map.empty PutThrows"

section \<open>Facts about the string functions\<close>

lemma isWhiteSpace_of_char:
  "isWhiteSpace c \<longleftrightarrow> (of_char c :: nat) \<in> {9, 10, 11, 12, 13, 32, 160}"
proof
  assume "isWhiteSpace c"
  then have "c = CHR 0x09 \<or> c = CHR 0x0A \<or> c = CHR 0x0B \<or> c = CHR 0x0C \<or> c = CHR 0x0D \<or>
      c = CHR 0x20 \<or> c = CHR 0xA0"
    by (simp add: isWhiteSpace_def)
  then show "(of_char c :: nat) \<in> {9, 10, 11, 12, 13, 32, 160}"
    by (elim disjE) simp_all
next
  assume a: "(of_char c :: nat) \<in> {9, 10, 11, 12, 13, 32, 160}"
  have c: "c = char_of (of_char c :: nat)" by simp
  have k: "char_of (9::nat) = CHR 0x09" "char_of (10::nat) = CHR 0x0A" "char_of (11::nat) = CHR 0x0B"
      "char_of (12::nat) = CHR 0x0C" "char_of (13::nat) = CHR 0x0D" "char_of (32::nat) = CHR 0x20"
      "char_of (160::nat) = CHR 0xA0"
    by code_simp+
  from a have "(of_char c :: nat) = 9 \<or> (of_char c :: nat) = 10 \<or> (of_char c :: nat) = 11 \<or>
      (of_char c :: nat) = 12 \<or> (of_char c :: nat) = 13 \<or> (of_char c :: nat) = 32 \<or>
      (of_char c :: nat) = 160" by simp
  then have "c = CHR 0x09 \<or> c = CHR 0x0A \<or> c = CHR 0x0B \<or> c = CHR 0x0C \<or> c = CHR 0x0D \<or>
      c = CHR 0x20 \<or> c = CHR 0xA0"
    using c k by metis
  then show "isWhiteSpace c" by (simp add: isWhiteSpace_def)
qed

lemma isWhiteSpace_toLowerCase_chr [simp]:
  "isWhiteSpace (toLowerCase_chr c) = isWhiteSpace c"
proof (cases "0x41 \<le> (of_char c :: nat) \<and> (of_char c :: nat) \<le> 0x5A \<or>
              0xC0 \<le> (of_char c :: nat) \<and> (of_char c :: nat) \<le> 0xD6 \<or>
              0xD8 \<le> (of_char c :: nat) \<and> (of_char c :: nat) \<le> 0xDE")
  case True
  then have m: "(of_char (char_of (of_char c + 32 :: nat)) :: nat) = of_char c + 32"
    by (simp only: of_char_of) auto
  have l: "toLowerCase_chr c = char_of (of_char c + 32 :: nat)"
    using True by (simp only: toLowerCase_chr_def Let_def simp_thms if_True)
  have "\<not> isWhiteSpace c" using True by (simp only: isWhiteSpace_of_char) auto
  moreover have "\<not> isWhiteSpace (toLowerCase_chr c)"
    using True unfolding l by (simp only: isWhiteSpace_of_char m) auto
  ultimately show ?thesis by simp
next
  case False
  then have "toLowerCase_chr c = c"
    by (simp only: toLowerCase_chr_def Let_def simp_thms if_False)
  then show ?thesis by simp
qed

lemma includes_str_sublist: "includes_str s t \<longleftrightarrow> sublist t s"
  by (induction s) (simp_all add: sublist_Cons_right)

lemma toLowerCase_trim: "toLowerCase (trim s) = trim (toLowerCase s)"
  by (simp add: toLowerCase_def trim_def rev_map dropWhile_map comp_def)



lemma sublist_dropWhile:
  assumes "m \<noteq> []" and "\<not> P (hd m)"
  shows "sublist m (dropWhile P x) \<longleftrightarrow> sublist m x"
proof (induction x)
  case Nil
  show ?case by simp
next
  case (Cons a x)
  show ?case
  proof (cases "P a")
    case True
    then have "\<not> prefix m (a # x)"
      using assms by (cases m) auto
    with True Cons show ?thesis by (simp add: sublist_Cons_right)
  next
    case False
    then show ?thesis by simp
  qed
qed

lemma sublist_trim:
  assumes "m \<noteq> []" and "\<not> isWhiteSpace (hd m)" and "\<not> isWhiteSpace (last m)"
  shows "sublist m (trim x) \<longleftrightarrow> sublist m x"
proof -
  have "sublist m (trim x) \<longleftrightarrow> sublist (rev m) (dropWhile isWhiteSpace (rev (dropWhile isWhiteSpace x)))"
    by (simp add: trim_def sublist_rev_right)
  also have "\<dots> \<longleftrightarrow> sublist (rev m) (rev (dropWhile isWhiteSpace x))"
    using assms by (intro sublist_dropWhile) (simp_all add: hd_rev)
  also have "\<dots> \<longleftrightarrow> sublist m (dropWhile isWhiteSpace x)" by simp
  also have "\<dots> \<longleftrightarrow> sublist m x"
    using assms by (intro sublist_dropWhile)
  finally show ?thesis .
qed

lemma error_marker_trim:
  "includes_str (toLowerCase (trim s)) error_marker \<longleftrightarrow> includes_str (toLowerCase s) error_marker"
proof -
  have "\<not> isWhiteSpace (hd error_marker)" "\<not> isWhiteSpace (last error_marker)" "error_marker \<noteq> []"
    by (simp_all add: error_marker_def isWhiteSpace_def)
  then show ?thesis
    by (simp add: includes_str_sublist toLowerCase_trim sublist_trim)
qed

lemma trim_whitespace:
  assumes "\<forall>x\<in>set s. isWhiteSpace x"
  shows "normalizeName s = []"
proof -
  have h: "dropWhile isWhiteSpace s = []" using assms by simp
  show ?thesis unfolding normalizeName_def trim_def h by (simp add: toLowerCase_def)
qed




section \<open>The consumability classifier\<close>

text \<open>
  Claim C4. \<open>isConsumableIngredient\<close> returns \<open>true\<close> for every record whose ItemType
  is \<open>"nutrient"\<close>, whatever its other fields hold. For a record whose ItemType is
  \<open>"ingredient"\<close> and whose Category is absent (read as the empty string) or a string, it
  returns \<open>false\<close> exactly when the lowercased category text has a term of the denylist as
  a substring. An ingredient of category \<open>"plastic container"\<close> is rejected, one of
  category \<open>"root vegetable"\<close> is accepted.
\<close>

theorem isConsumableIngredient_classifies:
  "(get_prop item ''ItemType'' = Some (JStr ''nutrient'') \<longrightarrow>
      isConsumableIngredient item = Inr True) \<and>
   (get_prop item ''ItemType'' = Some (JStr ''ingredient'') \<and>
    (get_prop item ''Category'' = None \<and> category = [] \<or>
     get_prop item ''Category'' = Some (JStr category)) \<longrightarrow>
      isConsumableIngredient item =
        Inr (\<not> (\<exists>t \<in> set nonConsumableCategories. sublist t (toLowerCase category)))) \<and>
   isConsumableIngredient
     (JObj [(''ItemType'', JStr ''ingredient''), (''Category'', JStr ''plastic container'')]) =
     Inr False \<and>
   isConsumableIngredient
     (JObj [(''ItemType'', JStr ''ingredient''), (''Category'', JStr ''root vegetable'')]) =
     Inr True"
proof (intro conjI impI)
  assume "get_prop item ''ItemType'' = Some (JStr ''nutrient'')"
  then show "isConsumableIngredient item = Inr True"
    by (auto simp: isConsumableIngredient_def)
next
  assume a: "get_prop item ''ItemType'' = Some (JStr ''ingredient'') \<and>
    (get_prop item ''Category'' = None \<and> category = [] \<or>
     get_prop item ''Category'' = Some (JStr category))"
  then have ne: "item \<noteq> JNull" by auto
  have cat: "category_or_empty item = JStr category"
    using a by (auto simp: category_or_empty_def)
  show "isConsumableIngredient item =
      Inr (\<not> (\<exists>t \<in> set nonConsumableCategories. sublist t (toLowerCase category)))"
    using a ne cat
    by (simp add: isConsumableIngredient_def list_ex_iff includes_str_sublist)
next
  show "isConsumableIngredient
     (JObj [(''ItemType'', JStr ''ingredient''), (''Category'', JStr ''plastic container'')]) =
     Inr False"
    by code_simp
next
  show "isConsumableIngredient
     (JObj [(''ItemType'', JStr ''ingredient''), (''Category'', JStr ''root vegetable'')]) =
     Inr True"
    by code_simp
qed

theorem isConsumableIngredient_classifies_witness:
  "isConsumableIngredient (JObj [(''ItemType'', JStr ''nutrient''), (''Category'', JStr ''poison'')]) =
     Inr True \<and>
   isConsumableIngredient (JObj [(''ItemType'', JStr ''ingredient''), (''Category'', JStr ''Rat Poison'')]) =
     Inr False \<and>
   isConsumableIngredient (JObj [(''ItemType'', JStr ''ingredient'')]) = Inr True"
proof -
  have a: "\<exists>t \<in> set nonConsumableCategories. sublist t (toLowerCase ''Rat Poison'')"
    by code_simp
  have b: "\<not> (\<exists>t \<in> set nonConsumableCategories. sublist t (toLowerCase []))"
    by code_simp
  show ?thesis
    using isConsumableIngredient_classifies
            [of "JObj [(''ItemType'', JStr ''nutrient''), (''Category'', JStr ''poison'')]" "[]"]
          isConsumableIngredient_classifies
            [of "JObj [(''ItemType'', JStr ''ingredient''), (''Category'', JStr ''Rat Poison'')]"
                "''Rat Poison''"]
          isConsumableIngredient_classifies [of "JObj [(''ItemType'', JStr ''ingredient'')]" "[]"]
          a b
    by simp
qed

section \<open>The cache\<close>

text \<open>
  Claim C6. \<open>getCachedResponse\<close> returns the stored item when an entry for the key is
  present and its age is strictly less than 3600000 ms, and \<open>null\<close> when there is no
  entry or the entry is that old or older; in either case it leaves the cache as it was, the
  stale entry included. \<open>setCachedResponse\<close> stores the item with the current timestamp
  under the key, whatever was there, and touches no other key.
\<close>

theorem cache_get_set_contract:
  "(\<forall>d t. c k = Some (d, t) \<and> now - t < 3600000 \<longrightarrow> fst (getCachedResponse now k c) = d) \<and>
   (c k = None \<or> (\<exists>d t. c k = Some (d, t) \<and> \<not> now - t < 3600000) \<longrightarrow>
      fst (getCachedResponse now k c) = JNull) \<and>
   snd (getCachedResponse now k c) = c \<and>
   setCachedResponse now k d' c k = Some (d', now) \<and>
   (\<forall>k'. k' \<noteq> k \<longrightarrow> setCachedResponse now k d' c k' = c k')"
  by (auto simp: getCachedResponse_def setCachedResponse_def CACHE_TTL_def split: option.splits)

theorem cache_get_set_contract_witness:
  "fst (getCachedResponse 3599999 ''k'' [''k'' \<mapsto> (JStr ''v'', 0)]) = JStr ''v'' \<and>
   fst (getCachedResponse 3600000 ''k'' [''k'' \<mapsto> (JStr ''v'', 0)]) = JNull \<and>
   snd (getCachedResponse 3600000 ''k'' [''k'' \<mapsto> (JStr ''v'', 0)]) = [''k'' \<mapsto> (JStr ''v'', 0)] \<and>
   setCachedResponse 7 ''k'' JNull [''k'' \<mapsto> (JStr ''v'', 0)] ''j'' = None"
  using cache_get_set_contract [of "[''k'' \<mapsto> (JStr ''v'', 0)]" "''k''" 3599999 JNull]
        cache_get_set_contract [of "[''k'' \<mapsto> (JStr ''v'', 0)]" "''k''" 3600000 JNull]
        cache_get_set_contract [of "[''k'' \<mapsto> (JStr ''v'', 0)]" "''k''" 7 JNull]
  by simp

section \<open>Facts about the validator and the two schemas\<close>

lemma validate_closed_object:
  "validate fm (Schema [Type TObject, Properties ps, Required rs, AdditionalProperties False]) v \<longleftrightarrow>
     (\<exists>kvs. v = JObj kvs \<and>
        (\<forall>(k, s) \<in> set ps. \<forall>x. map_of kvs k = Some x \<longrightarrow> validate fm s x) \<and>
        (\<forall>r \<in> set rs. map_of kvs r \<noteq> None) \<and>
        (\<forall>k \<in> fst ` set kvs. k \<in> fst ` set ps))"
  by (cases v) (auto simp: list_all_iff split: option.splits)

lemma validate_string: "validate fm (Schema [Type TString]) v \<longleftrightarrow> (\<exists>s. v = JStr s)"
  by (cases v) simp_all

lemma validate_oneOf2:
  "validate fm (Schema [OneOf [a, b]]) v \<longleftrightarrow> (validate fm a v \<noteq> validate fm b v)"
  by auto

lemma input_names:
  "fst ` set inputSchema_properties =
    {''ItemType'', ''Name'', ''AlternateNames'', ''Description'', ''YinYangClassification'',
     ''FiveElements'', ''Category'', ''FlavorProfile'', ''MedicinalProperties'',
     ''CommonCulinaryUses'', ''OriginRegion'', ''SeasonalAvailability'',
     ''NutritionalInformation'', ''AllergenInformation'', ''PreparationTips'',
     ''DietaryRestrictions'', ''SubstituteIngredients'', ''StorageMethods'',
     ''CulinaryTechniques'', ''CulturalSignificance'', ''HistoricalUsage'',
     ''EnvironmentalImpact'', ''TCMInformation'', ''Type'', ''Functions'', ''Sources'',
     ''RecommendedDailyIntake'', ''DeficiencySymptoms'', ''ExcessSymptoms'', ''TopFoodSources''}"
  unfolding inputSchema_properties_def by (simp only: list.set image_insert image_empty fst_conv)

lemma system_names_fresh:
  "''ItemID'' \<notin> fst ` set inputSchema_properties"
  "''DateAdded'' \<notin> fst ` set inputSchema_properties"
  "''NameLowercase'' \<notin> fst ` set inputSchema_properties"
  unfolding input_names by simp_all

lemma validateInput_iff:
  "validateInput fm v \<longleftrightarrow>
     (\<exists>kvs. v = JObj kvs \<and>
        (\<forall>(k, s) \<in> set inputSchema_properties. \<forall>x. map_of kvs k = Some x \<longrightarrow> validate fm s x) \<and>
        map_of kvs ''ItemType'' \<noteq> None \<and> map_of kvs ''Name'' \<noteq> None \<and>
        (\<forall>k \<in> fst ` set kvs. k \<in> fst ` set inputSchema_properties))"
  unfolding validateInput_def inputSchema_def validate_closed_object by simp

lemma validateStorage_iff:
  "validateStorage fm v \<longleftrightarrow>
     (\<exists>kvs. v = JObj kvs \<and>
        (\<forall>(k, s) \<in> set inputSchema_properties. \<forall>x. map_of kvs k = Some x \<longrightarrow> validate fm s x) \<and>
        (\<forall>x. map_of kvs ''ItemID'' = Some x \<longrightarrow> (\<exists>s. x = JStr s)) \<and>
        (\<forall>x. map_of kvs ''DateAdded'' = Some x \<longrightarrow> (\<exists>s. x = JStr s \<and> fm ''date-time'' s)) \<and>
        (\<forall>x. map_of kvs ''NameLowercase'' = Some x \<longrightarrow> (\<exists>s. x = JStr s)) \<and>
        map_of kvs ''ItemType'' \<noteq> None \<and> map_of kvs ''Name'' \<noteq> None \<and>
        map_of kvs ''ItemID'' \<noteq> None \<and> map_of kvs ''DateAdded'' \<noteq> None \<and>
        map_of kvs ''NameLowercase'' \<noteq> None \<and>
        (\<forall>k \<in> fst ` set kvs.
           k \<in> fst ` set inputSchema_properties \<union> {''ItemID'', ''DateAdded'', ''NameLowercase''}))"
proof -
  have dt: "\<And>x. validate fm (Schema [Type TString, Format ''date-time'']) x \<longleftrightarrow>
      (\<exists>s. x = JStr s \<and> fm ''date-time'' s)"
    subgoal for x by (cases x) simp_all
    done
  show ?thesis
    unfolding validateStorage_def storageSchema_def validate_closed_object
    by (simp add: ball_Un dt validate_string image_Un del: validate.simps) blast
qed

text \<open>
  Claim C7. The pre-storage schema is closed: an object that carries a top-level key
  outside the properties the schema declares is rejected, whatever else it holds, so also
  when the required fields are present and correct.
\<close>

theorem validateInput_closed:
  "k \<in> fst ` set kvs \<Longrightarrow> k \<notin> fst ` set inputSchema_properties \<Longrightarrow>
     \<not> validateInput fm (JObj kvs)"
  unfolding validateInput_iff by blast

lemma Name_schema_in:
  "(''Name'',
     Schema [OneOf
       [Schema [Type TString],
        Schema [Type TObject,
                Properties [(''English'', Schema [Type TString]),
                            (''Chinese'', Schema [Type TString]),
                            (''Spanish'', Schema [Type TString])],
                Required [''English''],
                AdditionalProperties False]]]) \<in> set inputSchema_properties"
  by (simp add: inputSchema_properties_def)

lemma ItemType_schema_in:
  "(''ItemType'', Schema [Type TString, Enum [JStr ''ingredient'', JStr ''nutrient'']])
     \<in> set inputSchema_properties"
  by (simp add: inputSchema_properties_def)

lemma Category_schema_in:
  "(''Category'', Schema [Type TString]) \<in> set inputSchema_properties"
  by (simp add: inputSchema_properties_def)

text \<open>
  What the schema does enforce on Name, for either variant: a record that passes
  pre-storage validation has ItemType \<open>"ingredient"\<close> or \<open>"nutrient"\<close>, and its Name is a
  string or an object with a string under English, no key other than English, Chinese and
  Spanish, and strings under all of them.
\<close>

lemma validateInput_name_shape:
  assumes "validateInput fm item"
  shows "(get_prop item ''ItemType'' = Some (JStr ''ingredient'') \<or>
          get_prop item ''ItemType'' = Some (JStr ''nutrient'')) \<and>
         ((\<exists>s. get_prop item ''Name'' = Some (JStr s)) \<or>
          (\<exists>n e. get_prop item ''Name'' = Some (JObj n) \<and>
                 map_of n ''English'' = Some (JStr e) \<and>
                 fst ` set n \<subseteq> {''English'', ''Chinese'', ''Spanish''} \<and>
                 (\<forall>k x. map_of n k = Some x \<longrightarrow> (\<exists>t. x = JStr t))))"
proof -
  from assms obtain kvs where item: "item = JObj kvs"
    and props: "\<forall>(k, s) \<in> set inputSchema_properties. \<forall>x. map_of kvs k = Some x \<longrightarrow> validate fm s x"
    and req: "map_of kvs ''ItemType'' \<noteq> None" "map_of kvs ''Name'' \<noteq> None"
    unfolding validateInput_iff by blast
  from req obtain t nm where t: "map_of kvs ''ItemType'' = Some t" and nm: "map_of kvs ''Name'' = Some nm"
    by blast
  from props ItemType_schema_in t
  have "validate fm (Schema [Type TString, Enum [JStr ''ingredient'', JStr ''nutrient'']]) t"
    by blast
  then have T: "t = JStr ''ingredient'' \<or> t = JStr ''nutrient''" by auto
  let ?obj = "Schema [Type TObject,
                Properties [(''English'', Schema [Type TString]),
                            (''Chinese'', Schema [Type TString]),
                            (''Spanish'', Schema [Type TString])],
                Required [''English''],
                AdditionalProperties False]"
  from props Name_schema_in nm
  have "validate fm (Schema [OneOf [Schema [Type TString], ?obj]]) nm" by blast
  then have "validate fm (Schema [Type TString]) nm \<or> validate fm ?obj nm"
    unfolding validate_oneOf2 by blast
  then have N: "(\<exists>s. nm = JStr s) \<or>
      (\<exists>n e. nm = JObj n \<and> map_of n ''English'' = Some (JStr e) \<and>
         fst ` set n \<subseteq> {''English'', ''Chinese'', ''Spanish''} \<and>
         (\<forall>k x. map_of n k = Some x \<longrightarrow> (\<exists>t. x = JStr t)))"
  proof
    assume "validate fm (Schema [Type TString]) nm"
    then have "\<exists>s. nm = JStr s" by (simp only: validate_string)
    then show ?thesis by blast
  next
    assume "validate fm ?obj nm"
    then obtain n where n: "nm = JObj n"
      and p: "\<forall>(k, s) \<in> set [(''English'', Schema [Type TString]),
                            (''Chinese'', Schema [Type TString]),
                            (''Spanish'', Schema [Type TString])].
                \<forall>x. map_of n k = Some x \<longrightarrow> validate fm s x"
      and r: "map_of n ''English'' \<noteq> None"
      and c: "\<forall>k \<in> fst ` set n. k \<in> fst ` set [(''English'', Schema [Type TString]),
                            (''Chinese'', Schema [Type TString]),
                            (''Spanish'', Schema [Type TString])]"
      unfolding validate_closed_object by auto
    from c have keys: "fst ` set n \<subseteq> {''English'', ''Chinese'', ''Spanish''}" by auto
    have vals: "\<forall>k x. map_of n k = Some x \<longrightarrow> (\<exists>t. x = JStr t)"
    proof (intro allI impI)
      fix k x assume kx: "map_of n k = Some x"
      then have "k \<in> fst ` set n" by (metis map_of_SomeD fst_conv image_eqI)
      with keys have "k = ''English'' \<or> k = ''Chinese'' \<or> k = ''Spanish''" by blast
      with p kx have "validate fm (Schema [Type TString]) x" by auto
      then show "\<exists>t. x = JStr t" by (simp only: validate_string)
    qed
    from r vals obtain e where "map_of n ''English'' = Some (JStr e)" by blast
    with n keys vals show ?thesis by blast
  qed
  from T N show ?thesis unfolding item using t nm by auto
qed

text \<open>
  Claim C2. The schema's comments give the string branch of Name to nutrients and the
  object branch to ingredients (lines 41 and 43), and the prompt asks the generator for
  that pairing, but \<open>oneOf\<close> is not tied to ItemType: pre-storage validation accepts a
  nutrient whose Name is a multilingual object, and an ingredient whose Name is a string.
\<close>

theorem name_shape_not_enforced:
  "validateInput accept_all
     (JObj [(''ItemType'', JStr ''nutrient''), (''Name'', JObj [(''English'', JStr ''Iron'')])]) \<and>
   validateInput accept_all
     (JObj [(''ItemType'', JStr ''ingredient''), (''Name'', JStr ''Ginger'')])"
  unfolding validateInput_def inputSchema_def inputSchema_properties_def
  by simp

lemma validateInput_consumable_defined:
  assumes "validateInput fm item"
  shows "\<exists>b. isConsumableIngredient item = Inr b"
proof -
  from assms obtain kvs where item: "item = JObj kvs"
    and props: "\<forall>(k, s) \<in> set inputSchema_properties. \<forall>x. map_of kvs k = Some x \<longrightarrow> validate fm s x"
    unfolding validateInput_iff by blast
  have "\<exists>s. category_or_empty item = JStr s"
  proof (cases "map_of kvs ''Category''")
    case None
    then show ?thesis by (simp add: category_or_empty_def item)
  next
    case (Some x)
    with props Category_schema_in have "validate fm (Schema [Type TString]) x" by blast
    then obtain s where "x = JStr s" by (auto simp only: validate_string)
    with Some show ?thesis by (simp add: category_or_empty_def item)
  qed
  then show ?thesis
    by (auto simp: isConsumableIngredient_def item)
qed

text \<open>
  Claim C3. A record that passes pre-storage validation passes post-storage validation
  once the handler has assigned ItemID, DateAdded and NameLowercase, given that the
  timestamp text satisfies the \<open>date-time\<close> format; and a record that lacks one of the
  three system fields fails post-storage validation.
\<close>

theorem system_fields_round_trip:
  "(validateInput (ajv_formats w) item \<and> ajv_formats w ''date-time'' (toISOString w) \<longrightarrow>
      (\<exists>stored. assign_system_fields w normalizedSearchName item = Inr stored \<and>
                validateStorage (ajv_formats w) stored)) \<and>
   (get_prop record ''ItemID'' = None \<or> get_prop record ''DateAdded'' = None \<or>
    get_prop record ''NameLowercase'' = None \<longrightarrow> \<not> validateStorage fm record)"
proof (intro conjI impI)
  assume a: "validateInput (ajv_formats w) item \<and> ajv_formats w ''date-time'' (toISOString w)"
  let ?fm = "ajv_formats w"
  from a obtain kvs where item: "item = JObj kvs"
    and props: "\<forall>(k, s) \<in> set inputSchema_properties.
                  \<forall>x. map_of kvs k = Some x \<longrightarrow> validate ?fm s x"
    and req: "map_of kvs ''ItemType'' \<noteq> None" "map_of kvs ''Name'' \<noteq> None"
    and closed: "\<forall>k \<in> fst ` set kvs. k \<in> fst ` set inputSchema_properties"
    unfolding validateInput_iff by blast
  define kvs' where "kvs' = AList.update ''NameLowercase'' (JStr normalizedSearchName)
                    (AList.update ''DateAdded'' (JStr (toISOString w))
                    (AList.update ''ItemID'' (JStr (randomUUID w)) kvs))"
  have asg: "assign_system_fields w normalizedSearchName item = Inr (JObj kvs')"
    by (simp add: assign_system_fields_def item kvs'_def)
  have m: "map_of kvs' = (map_of kvs)(''ItemID'' \<mapsto> JStr (randomUUID w),
      ''DateAdded'' \<mapsto> JStr (toISOString w), ''NameLowercase'' \<mapsto> JStr normalizedSearchName)"
    by (simp add: kvs'_def update_conv')
  have d: "fst ` set kvs' = {''NameLowercase'', ''DateAdded'', ''ItemID''} \<union> fst ` set kvs"
    by (auto simp: kvs'_def dom_update)
  have old: "map_of kvs' k = map_of kvs k" if "k \<in> fst ` set inputSchema_properties" for k
  proof -
    from that system_names_fresh
    have "k \<noteq> ''ItemID''" "k \<noteq> ''DateAdded''" "k \<noteq> ''NameLowercase''" by blast+
    then show ?thesis by (simp add: m)
  qed
  have p': "\<forall>(k, s) \<in> set inputSchema_properties.
              \<forall>x. map_of kvs' k = Some x \<longrightarrow> validate ?fm s x"
  proof (intro ballI, clarify)
    fix k s x assume ks: "(k, s) \<in> set inputSchema_properties" and x: "map_of kvs' k = Some x"
    from ks have "k \<in> fst ` set inputSchema_properties" by force
    with x have "map_of kvs k = Some x" by (simp add: old)
    with props ks show "validate ?fm s x" by blast
  qed
  have r1: "map_of kvs' ''ItemType'' \<noteq> None" "map_of kvs' ''Name'' \<noteq> None"
    using req by (simp_all add: m)
  have n: "map_of kvs' ''ItemID'' = Some (JStr (randomUUID w))"
    "map_of kvs' ''DateAdded'' = Some (JStr (toISOString w))"
    "map_of kvs' ''NameLowercase'' = Some (JStr normalizedSearchName)"
    by (simp_all add: m)
  have c': "\<forall>k \<in> fst ` set kvs'.
      k \<in> fst ` set inputSchema_properties \<union> {''ItemID'', ''DateAdded'', ''NameLowercase''}"
    using closed unfolding d by blast
  have "validateStorage ?fm (JObj kvs')"
    unfolding validateStorage_iff using p' r1 n c' a by simp
  with asg show "\<exists>stored. assign_system_fields w normalizedSearchName item = Inr stored \<and>
                validateStorage ?fm stored" by blast
next
  assume "get_prop record ''ItemID'' = None \<or> get_prop record ''DateAdded'' = None \<or>
    get_prop record ''NameLowercase'' = None"
  then show "\<not> validateStorage fm record"
    unfolding validateStorage_iff by auto
qed

section \<open>The runs of the handler\<close>

lemma getCachedResponse_snd [simp]: "snd (getCachedResponse now k c) = c"
  by (simp add: getCachedResponse_def split: option.splits)

lemma validateInput_assign_defined:
  "validateInput fm item \<Longrightarrow> \<exists>stored. assign_system_fields w k item = Inr stored"
  unfolding validateInput_iff by (auto simp: assign_system_fields_def)

lemma handler_cases [consumes 1, case_names missing cache_hit query_throws store_hit
    generation_fails marker no_braces parse_fails bad_input not_consumable bad_storage
    marshall_throws put_throws stored]:
  assumes run: "handler w ev c = (r, c', tr)"
  obtains
    "searchName_of ev = None \<or> searchName_of ev = Some []"
      "r = \<lparr>statusCode = 400, headers = cors_headers,
             body = error_body ''Search name is required.''\<rparr>"
      "c' = c" "tr = []"
  | n where "searchName_of ev = Some n" "n \<noteq> []" "truthy (cachedData_of w n c)"
      "r = \<lparr>statusCode = 200, headers = cors_headers,
             body = found_body True (cachedData_of w n c)\<rparr>"
      "c' = c" "tr = [CacheGet (cacheKey_of w n)]"
  | n where "reached_store w ev c n" "query_by_name w (normalizeName n) = QueryThrows"
      "r = internal_error" "c' = c"
      "tr = [CacheGet (cacheKey_of w n), StoreQuery (normalizeName n)]"
  | n item rest where "reached_store w ev c n"
      "query_by_name w (normalizeName n) = QueryItems (Some (item # rest))"
      "r = \<lparr>statusCode = 200, headers = cors_headers, body = found_body True item\<rparr>"
      "c' = setCachedResponse (now_set w) (cacheKey_of w n) item c"
      "tr = [CacheGet (cacheKey_of w n), StoreQuery (normalizeName n),
             CacheSet (cacheKey_of w n) item]"
  | n where "reached_store w ev c n" "store_miss w n" "chat_completion w n = None"
      "r = \<lparr>statusCode = 502, headers = cors_headers,
             body = error_body ''Failed to retrieve data from external service.''\<rparr>"
      "c' = c"
      "tr = [CacheGet (cacheKey_of w n), StoreQuery (normalizeName n), Generate n]"
  | n reply where "reached_store w ev c n" "store_miss w n" "chat_completion w n = Some reply"
      "includes_str (toLowerCase (trim reply)) error_marker"
      "r = not_consumable n" "c' = c"
      "tr = [CacheGet (cacheKey_of w n), StoreQuery (normalizeName n), Generate n]"
  | n content where "reached_reply w ev c n content"
      "indexOf content CHR ''{'' = -1 \<or> lastIndexOf content CHR ''}'' = -1"
      "r = \<lparr>statusCode = 500, headers = cors_headers,
             body = error_body ''Failed to parse data from external service.''\<rparr>"
      "c' = c"
      "tr = [CacheGet (cacheKey_of w n), StoreQuery (normalizeName n), Generate n]"
  | n content where "reached_reply w ev c n content"
      "indexOf content CHR ''{'' \<noteq> -1" "lastIndexOf content CHR ''}'' \<noteq> -1"
      "JSON_parse w (jsonString_of content) = None"
      "r = \<lparr>statusCode = 500, headers = cors_headers,
             body = error_body ''Failed to parse data from external service.''\<rparr>"
      "c' = c"
      "tr = [CacheGet (cacheKey_of w n), StoreQuery (normalizeName n), Generate n,
             Parse (jsonString_of content)]"
  | n content item where "reached_item w ev c n content item"
      "\<not> validateInput (ajv_formats w) item"
      "r = \<lparr>statusCode = 500, headers = cors_headers,
             body = error_body ''Invalid data format received from external service.''\<rparr>"
      "c' = c"
      "tr = [CacheGet (cacheKey_of w n), StoreQuery (normalizeName n), Generate n,
             Parse (jsonString_of content), ValidateInput item]"
  | n content item where "reached_item w ev c n content item"
      "validateInput (ajv_formats w) item" "isConsumableIngredient item = Inr False"
      "r = not_consumable n" "c' = c"
      "tr = [CacheGet (cacheKey_of w n), StoreQuery (normalizeName n), Generate n,
             Parse (jsonString_of content), ValidateInput item, CheckConsumable item]"
  | n content item stored where "reached_item w ev c n content item"
      "validateInput (ajv_formats w) item" "isConsumableIngredient item = Inr True"
      "assign_system_fields w (normalizeName n) item = Inr stored"
      "\<not> validateStorage (ajv_formats w) stored"
      "r = \<lparr>statusCode = 500, headers = cors_headers,
             body = error_body ''Invalid data format after adding system fields.''\<rparr>"
      "c' = c"
      "tr = [CacheGet (cacheKey_of w n), StoreQuery (normalizeName n), Generate n,
             Parse (jsonString_of content), ValidateInput item, CheckConsumable item,
             ValidateStorage stored]"
  | n content item stored where "reached_put w ev c n content item stored"
      "put_item w stored = MarshallThrows"
      "r = internal_error" "c' = c"
      "tr = [CacheGet (cacheKey_of w n), StoreQuery (normalizeName n), Generate n,
             Parse (jsonString_of content), ValidateInput item, CheckConsumable item,
             ValidateStorage stored]"
  | n content item stored where "reached_put w ev c n content item stored"
      "put_item w stored = PutThrows"
      "r = \<lparr>statusCode = 500, headers = cors_headers,
             body = error_body ''Failed to save item data.''\<rparr>"
      "c' = c"
      "tr = [CacheGet (cacheKey_of w n), StoreQuery (normalizeName n), Generate n,
             Parse (jsonString_of content), ValidateInput item, CheckConsumable item,
             ValidateStorage stored, StorePut stored]"
  | n content item stored where "reached_put w ev c n content item stored"
      "put_item w stored = PutDone"
      "r = \<lparr>statusCode = 200, headers = cors_headers, body = found_body False stored\<rparr>"
      "c' = setCachedResponse (now_set w) (cacheKey_of w n) stored c"
      "tr = [CacheGet (cacheKey_of w n), StoreQuery (normalizeName n), Generate n,
             Parse (jsonString_of content), ValidateInput item, CheckConsumable item,
             ValidateStorage stored, StorePut stored, CacheSet (cacheKey_of w n) stored]"
proof -
  consider (a) "searchName_of ev = None \<or> searchName_of ev = Some []"
    | (b) n where "searchName_of ev = Some n" "n \<noteq> []"
    by (cases "searchName_of ev") auto
  then show thesis
  proof cases
    case a
    with run have "r = \<lparr>statusCode = 400, headers = cors_headers,
        body = error_body ''Search name is required.''\<rparr>" "c' = c" "tr = []"
      by (auto simp: handler_def)
    with a show thesis by (rule that(1))
  next
    case b
    let ?key = "normalizeName n"
    let ?ck = "sha256_hex w ?key"
    let ?t2 = "[CacheGet ?ck, StoreQuery ?key]"
    let ?t3 = "[CacheGet ?ck, StoreQuery ?key, Generate n]"
    show thesis
    proof (cases "truthy (cachedData_of w n c)")
      case True
      with run b have "r = \<lparr>statusCode = 200, headers = cors_headers,
          body = found_body True (cachedData_of w n c)\<rparr>" "c' = c" "tr = [CacheGet ?ck]"
        by (auto simp: handler_def Let_def)
      with b True show thesis by (rule that(2))
    next
      case nc: False
      have rs: "reached_store w ev c n" using b nc by simp
      show thesis
      proof (cases "query_by_name w ?key")
        case QueryThrows
        with run b nc have "r = internal_error" "c' = c" "tr = ?t2"
          by (auto simp: handler_def Let_def)
        with rs QueryThrows show thesis by (rule that(3))
      next
        case (QueryItems xs)
        show thesis
        proof (cases "\<exists>item rest. xs = Some (item # rest)")
          case True
          then obtain item rest where xs: "xs = Some (item # rest)" by blast
          with run b nc QueryItems
          have "r = \<lparr>statusCode = 200, headers = cors_headers, body = found_body True item\<rparr>"
            "c' = setCachedResponse (now_set w) ?ck item c"
            "tr = [CacheGet ?ck, StoreQuery ?key, CacheSet ?ck item]"
            by (auto simp: handler_def Let_def)
          with rs QueryItems xs show thesis by (intro that(4)[of n item rest]) simp_all
        next
          case False
          then have xs: "xs = None \<or> xs = Some []"
            by (cases xs) (auto intro: list.exhaust)
          then have miss: "store_miss w n" using QueryItems by auto
          from run b nc QueryItems xs
          have A: "ask_openai w n ?key ?ck c ?t2 = (r, c', tr)"
            by (auto simp: handler_def Let_def)
          show thesis
          proof (cases "chat_completion w n")
            case None
            with A have "r = \<lparr>statusCode = 502, headers = cors_headers,
                body = error_body ''Failed to retrieve data from external service.''\<rparr>"
              "c' = c" "tr = ?t3"
              by (auto simp: ask_openai_def)
            with rs miss None show thesis by (intro that(5)[of n]) simp_all
          next
            case (Some reply)
            let ?content = "trim reply"
            let ?t4 = "[CacheGet ?ck, StoreQuery ?key, Generate n, Parse (jsonString_of ?content)]"
            from A Some have R: "read_reply w n ?key ?ck ?content c ?t3 = (r, c', tr)"
              by (simp add: ask_openai_def)
            show thesis
            proof (cases "includes_str (toLowerCase ?content) error_marker")
              case True
              with R have "r = not_consumable n" "c' = c" "tr = ?t3"
                by (auto simp: read_reply_def)
              with rs miss Some True show thesis by (intro that(6)[of n reply]) simp_all
            next
              case nm: False
              have rr: "reached_reply w ev c n ?content" using rs miss Some nm by simp
              show thesis
              proof (cases "indexOf ?content CHR ''{'' = -1 \<or> lastIndexOf ?content CHR ''}'' = -1")
                case True
                with R nm have "r = \<lparr>statusCode = 500, headers = cors_headers,
                    body = error_body ''Failed to parse data from external service.''\<rparr>"
                  "c' = c" "tr = ?t3"
                  by (auto simp: read_reply_def Let_def)
                with rr True show thesis by (intro that(7)[of n ?content]) simp_all
              next
                case br: False
                show thesis
                proof (cases "JSON_parse w (jsonString_of ?content)")
                  case None
                  with R nm br have "r = \<lparr>statusCode = 500, headers = cors_headers,
                      body = error_body ''Failed to parse data from external service.''\<rparr>"
                    "c' = c" "tr = ?t4"
                    by (auto simp: read_reply_def Let_def)
                  with rr br None show thesis by (intro that(8)[of n ?content]) simp_all
                next
                  case (Some item)
                  have ri: "reached_item w ev c n ?content item" using rr br Some by simp
                  from R nm br Some
                  have C: "check_item w n ?key ?ck item c ?t4 = (r, c', tr)"
                    by (simp add: read_reply_def Let_def)
                  show thesis
                  proof (cases "validateInput (ajv_formats w) item")
                    case False
                    with C have "r = \<lparr>statusCode = 500, headers = cors_headers,
                        body = error_body ''Invalid data format received from external service.''\<rparr>"
                      "c' = c" "tr = ?t4 @ [ValidateInput item]"
                      by (auto simp: check_item_def)
                    with ri False show thesis by (intro that(9)[of n ?content item]) simp_all
                  next
                    case vi: True
                    obtain b where cb: "isConsumableIngredient item = Inr b"
                      using validateInput_consumable_defined[OF vi] by blast
                    obtain stored where st: "assign_system_fields w ?key item = Inr stored"
                      using validateInput_assign_defined[OF vi] by blast
                    let ?t6 = "?t4 @ [ValidateInput item, CheckConsumable item]"
                    let ?t7 = "?t4 @ [ValidateInput item, CheckConsumable item, ValidateStorage stored]"
                    show thesis
                    proof (cases b)
                      case False
                      with C vi cb have "r = not_consumable n" "c' = c" "tr = ?t6"
                        by (auto simp: check_item_def)
                      with ri vi cb False show thesis
                        by (intro that(10)[of n ?content item]) simp_all
                    next
                      case True
                      show thesis
                      proof (cases "validateStorage (ajv_formats w) stored")
                        case False
                        with C vi cb True st
                        have "r = \<lparr>statusCode = 500, headers = cors_headers,
                            body = error_body ''Invalid data format after adding system fields.''\<rparr>"
                          "c' = c" "tr = ?t7"
                          by (auto simp: check_item_def)
                        with ri vi cb True st False show thesis
                          by (intro that(11)[of n ?content item stored]) simp_all
                      next
                        case vs: True
                        have rp: "reached_put w ev c n ?content item stored"
                          using ri vi cb True st vs by simp
                        from C vi cb True st vs
                        have S: "save_item w ?ck stored c ?t7 = (r, c', tr)"
                          by (simp add: check_item_def)
                        show thesis
                        proof (cases "put_item w stored")
                          case PutDone
                          with S have "r = \<lparr>statusCode = 200, headers = cors_headers,
                              body = found_body False stored\<rparr>"
                            "c' = setCachedResponse (now_set w) ?ck stored c"
                            "tr = ?t7 @ [StorePut stored, CacheSet ?ck stored]"
                            by (auto simp: save_item_def)
                          with rp PutDone show thesis
                            by (intro that(14)[of n ?content item stored]) simp_all
                        next
                          case MarshallThrows
                          with S have "r = internal_error" "c' = c" "tr = ?t7"
                            by (auto simp: save_item_def)
                          with rp MarshallThrows show thesis
                            by (intro that(12)[of n ?content item stored]) simp_all
                        next
                          case PutThrows
                          with S have "r = \<lparr>statusCode = 500, headers = cors_headers,
                              body = error_body ''Failed to save item data.''\<rparr>"
                            "c' = c" "tr = ?t7 @ [StorePut stored]"
                            by (auto simp: save_item_def)
                          with rp PutThrows show thesis
                            by (intro that(13)[of n ?content item stored]) simp_all
                        qed
                      qed
                    qed
                  qed
                qed
              qed
            qed
          qed
        qed
      qed
    qed
  qed
qed

section \<open>What a run returns, from the request, the cache and the world\<close>


lemma run_cache_hit:
  "handler w ev c = (r, c', tr) \<Longrightarrow>
   searchName_of ev = Some n \<and> n \<noteq> [] \<and> truthy (cachedData_of w n c) \<Longrightarrow>
     r = \<lparr>statusCode = 200, headers = cors_headers,
           body = found_body True (cachedData_of w n c)\<rparr> \<and>
     c' = c \<and> tr = [CacheGet (cacheKey_of w n)]"
  by (auto simp: handler_def Let_def)

lemma run_query_throws:
  "handler w ev c = (r, c', tr) \<Longrightarrow>
   reached_store w ev c n \<and> query_by_name w (normalizeName n) = QueryThrows \<Longrightarrow>
     r = internal_error \<and> c' = c \<and>
     tr = [CacheGet (cacheKey_of w n), StoreQuery (normalizeName n)]"
  by (auto simp: handler_def Let_def)

lemma run_store_hit:
  "handler w ev c = (r, c', tr) \<Longrightarrow>
   reached_store w ev c n \<and>
   query_by_name w (normalizeName n) = QueryItems (Some (item # rest)) \<Longrightarrow>
     r = \<lparr>statusCode = 200, headers = cors_headers, body = found_body True item\<rparr> \<and>
     c' = setCachedResponse (now_set w) (cacheKey_of w n) item c \<and>
     tr = [CacheGet (cacheKey_of w n), StoreQuery (normalizeName n),
           CacheSet (cacheKey_of w n) item]"
  by (auto simp: handler_def Let_def)

lemma run_store_miss:
  "handler w ev c = (r, c', tr) \<Longrightarrow> reached_store w ev c n \<and> store_miss w n \<Longrightarrow>
     ask_openai w n (normalizeName n) (cacheKey_of w n) c
       [CacheGet (cacheKey_of w n), StoreQuery (normalizeName n)] = (r, c', tr)"
  by (auto simp: handler_def Let_def)

lemma run_generation_fails:
  "handler w ev c = (r, c', tr) \<Longrightarrow>
   reached_store w ev c n \<and> store_miss w n \<and> chat_completion w n = None \<Longrightarrow>
     r = \<lparr>statusCode = 502, headers = cors_headers,
           body = error_body ''Failed to retrieve data from external service.''\<rparr> \<and>
     c' = c \<and>
     tr = [CacheGet (cacheKey_of w n), StoreQuery (normalizeName n), Generate n]"
  by (drule run_store_miss [of _ _ _ _ _ _ n]) (auto simp: ask_openai_def)













lemmas response_defs = internal_error_def not_consumable_def

text \<open>
  Claim C9. A run whose status is not 200 leaves the cache as it found it and makes no
  cache write. A cache write happens only in a run that answers 200, after a hit in the
  store or after a put that succeeded, and the cache it leaves is the old one with that
  one entry set.
\<close>

theorem cache_untouched_on_error:
  assumes "handler w ev c = (r, c', tr)"
  shows "(statusCode r \<noteq> 200 \<longrightarrow> c' = c \<and> (\<forall>k d. CacheSet k d \<notin> set tr)) \<and>
         ((\<forall>k d. CacheSet k d \<notin> set tr) \<longrightarrow> c' = c) \<and>
         (\<forall>k d. CacheSet k d \<in> set tr \<longrightarrow>
            statusCode r = 200 \<and> c' = setCachedResponse (now_set w) k d c \<and>
            ((\<exists>n rest. StoreQuery n \<in> set tr \<and> query_by_name w n = QueryItems (Some (d # rest))) \<or>
             (StorePut d \<in> set tr \<and> put_item w d = PutDone)))"
  using assms by (cases rule: handler_cases) (auto simp: response_defs)

text \<open>
  Claim C8. When the generator has been asked and the lowercased text of its reply contains
  the marker \<open>"error":\<close>, the run answers 404 and has taken no step after the
  generation: no parsing, no schema validation, no consumability check, no put and no cache
  write.
\<close>

theorem error_marker_short_circuit:
  assumes "handler w ev c = (r, c', tr)"
    and "Generate n \<in> set tr"
    and "chat_completion w n = Some reply"
    and "includes_str (toLowerCase reply) error_marker"
  shows "statusCode r = 404 \<and> c' = c \<and>
         tr = [CacheGet (sha256_hex w (normalizeName n)), StoreQuery (normalizeName n), Generate n] \<and>
         (\<forall>s. Parse s \<notin> set tr) \<and> (\<forall>j. ValidateInput j \<notin> set tr) \<and>
         (\<forall>j. CheckConsumable j \<notin> set tr) \<and> (\<forall>j. ValidateStorage j \<notin> set tr) \<and>
         (\<forall>j. StorePut j \<notin> set tr) \<and> (\<forall>k j. CacheSet k j \<notin> set tr)"
proof -
  have m: "includes_str (toLowerCase (trim reply)) error_marker"
    using assms(4) by (simp only: error_marker_trim)
  from assms(1) show ?thesis
    using assms(2,3) m by (cases rule: handler_cases) (auto simp: response_defs)
qed

text \<open>
  Claim C10. A search name that is not empty and consists of white space only is not
  answered with 400. Its normalized name is the empty string, and the run goes on with it:
  an entry that the cache holds, fresh, under the digest of the empty string is the answer;
  otherwise the store is asked for the empty string, an item it returns is the answer and
  is cached under the digest of the empty string, an exception of that query gives 500,
  and when the store has nothing for the empty string the generator is asked.
\<close>

theorem whitespace_name_proceeds:
  assumes "handler w ev c = (r, c', tr)"
    and "searchName_of ev = Some n" and "n \<noteq> []" and "\<forall>x \<in> set n. isWhiteSpace x"
  shows "statusCode r \<noteq> 400 \<and> normalizeName n = [] \<and>
         (truthy (fst (getCachedResponse (now_get w) (sha256_hex w []) c)) \<longrightarrow>
            r = \<lparr>statusCode = 200, headers = cors_headers,
                  body = found_body True (fst (getCachedResponse (now_get w) (sha256_hex w []) c))\<rparr> \<and>
            c' = c \<and> tr = [CacheGet (sha256_hex w [])]) \<and>
         (\<not> truthy (fst (getCachedResponse (now_get w) (sha256_hex w []) c)) \<longrightarrow>
            take 2 tr = [CacheGet (sha256_hex w []), StoreQuery []] \<and>
            (\<forall>item rest. query_by_name w [] = QueryItems (Some (item # rest)) \<longrightarrow>
               r = \<lparr>statusCode = 200, headers = cors_headers, body = found_body True item\<rparr> \<and>
               c' = setCachedResponse (now_set w) (sha256_hex w []) item c) \<and>
            (query_by_name w [] = QueryThrows \<longrightarrow> statusCode r = 500 \<and> c' = c) \<and>
            (query_by_name w [] = QueryItems None \<or> query_by_name w [] = QueryItems (Some []) \<longrightarrow>
               Generate n \<in> set tr \<and>
               (chat_completion w n = None \<longrightarrow> statusCode r = 502))) \<and>
         (\<forall>k. CacheGet k \<in> set tr \<longrightarrow> k = sha256_hex w []) \<and>
         (\<forall>k. StoreQuery k \<in> set tr \<longrightarrow> k = [])"
proof -
  note run = assms(1)
  have e: "normalizeName n = []" using assms(4) by (rule trim_whitespace)
  have name: "searchName_of ev = Some n \<and> n \<noteq> []" using assms(2,3) by simp
  have s400: "statusCode r \<noteq> 400"
    using run assms(2,3) by (cases rule: handler_cases) (auto simp: response_defs)
  have only: "(\<forall>k. CacheGet k \<in> set tr \<longrightarrow> k = sha256_hex w []) \<and>
         (\<forall>k. StoreQuery k \<in> set tr \<longrightarrow> k = [])"
    using run assms(2,3) e by (cases rule: handler_cases) auto
  have hit: "truthy (fst (getCachedResponse (now_get w) (sha256_hex w []) c)) \<longrightarrow>
            r = \<lparr>statusCode = 200, headers = cors_headers,
                  body = found_body True (fst (getCachedResponse (now_get w) (sha256_hex w []) c))\<rparr> \<and>
            c' = c \<and> tr = [CacheGet (sha256_hex w [])]"
    using run_cache_hit [OF run, of n] name e by simp
  have miss: "\<not> truthy (fst (getCachedResponse (now_get w) (sha256_hex w []) c)) \<longrightarrow>
            take 2 tr = [CacheGet (sha256_hex w []), StoreQuery []] \<and>
            (\<forall>item rest. query_by_name w [] = QueryItems (Some (item # rest)) \<longrightarrow>
               r = \<lparr>statusCode = 200, headers = cors_headers, body = found_body True item\<rparr> \<and>
               c' = setCachedResponse (now_set w) (sha256_hex w []) item c) \<and>
            (query_by_name w [] = QueryThrows \<longrightarrow> statusCode r = 500 \<and> c' = c) \<and>
            (query_by_name w [] = QueryItems None \<or> query_by_name w [] = QueryItems (Some []) \<longrightarrow>
               Generate n \<in> set tr \<and>
               (chat_completion w n = None \<longrightarrow> statusCode r = 502))"
  proof (intro impI)
    assume nc: "\<not> truthy (fst (getCachedResponse (now_get w) (sha256_hex w []) c))"
    then have rs: "reached_store w ev c n" using name e by simp
    have t2: "take 2 tr = [CacheGet (sha256_hex w []), StoreQuery []]"
      using run assms(2,3) e nc by (cases rule: handler_cases) auto
    have sh: "\<forall>item rest. query_by_name w [] = QueryItems (Some (item # rest)) \<longrightarrow>
               r = \<lparr>statusCode = 200, headers = cors_headers, body = found_body True item\<rparr> \<and>
               c' = setCachedResponse (now_set w) (sha256_hex w []) item c"
    proof (intro allI impI)
      fix item rest
      assume "query_by_name w [] = QueryItems (Some (item # rest))"
      with rs run_store_hit [OF run, of n item rest] e
      show "r = \<lparr>statusCode = 200, headers = cors_headers, body = found_body True item\<rparr> \<and>
            c' = setCachedResponse (now_set w) (sha256_hex w []) item c"
        by simp
    qed
    have qt: "query_by_name w [] = QueryThrows \<longrightarrow> statusCode r = 500 \<and> c' = c"
      using rs run_query_throws [OF run, of n] e by (simp add: response_defs)
    have gen: "query_by_name w [] = QueryItems None \<or> query_by_name w [] = QueryItems (Some []) \<longrightarrow>
               Generate n \<in> set tr \<and> (chat_completion w n = None \<longrightarrow> statusCode r = 502)"
    proof (intro impI conjI)
      assume m: "query_by_name w [] = QueryItems None \<or> query_by_name w [] = QueryItems (Some [])"
      with run assms(2,3) e nc show "Generate n \<in> set tr"
        by (cases rule: handler_cases) auto
      assume "chat_completion w n = None"
      with rs m e run_generation_fails [OF run, of n] show "statusCode r = 502" by simp
    qed
    from t2 sh qt gen
    show "take 2 tr = [CacheGet (sha256_hex w []), StoreQuery []] \<and>
            (\<forall>item rest. query_by_name w [] = QueryItems (Some (item # rest)) \<longrightarrow>
               r = \<lparr>statusCode = 200, headers = cors_headers, body = found_body True item\<rparr> \<and>
               c' = setCachedResponse (now_set w) (sha256_hex w []) item c) \<and>
            (query_by_name w [] = QueryThrows \<longrightarrow> statusCode r = 500 \<and> c' = c) \<and>
            (query_by_name w [] = QueryItems None \<or> query_by_name w [] = QueryItems (Some []) \<longrightarrow>
               Generate n \<in> set tr \<and>
               (chat_completion w n = None \<longrightarrow> statusCode r = 502))"
      by (intro conjI) (rule t2 sh qt gen)+
  qed
  show ?thesis
    by (rule conjI [OF s400 conjI [OF e conjI [OF hit conjI [OF miss only]]]])
qed



section \<open>Four runs, evaluated\<close>


lemma marker_run_effects:
  "snd (snd (handler marker_world (demo_event ''tar'') Map.empty)) =
     [CacheGet ''rat'', StoreQuery ''tar'', Generate ''tar'']"
  by code_simp

lemma down_run_effects:
  "snd (snd (handler down_world (demo_event '' '') Map.empty)) = [CacheGet [], StoreQuery []]"
  by code_simp

lemma blank_run_effects:
  "snd (snd (handler down_world (demo_event [CHR 0xA0, CHR 0x09]) Map.empty)) =
     [CacheGet [], StoreQuery []]"
  by code_simp


lemma marker_run:
  "handler marker_world (demo_event ''tar'') Map.empty =
     (fst (handler marker_world (demo_event ''tar'') Map.empty),
      fst (snd (handler marker_world (demo_event ''tar'') Map.empty)),
      [CacheGet ''rat'', StoreQuery ''tar'', Generate ''tar''])"
  using marker_run_effects by (simp add: prod_eq_iff)

lemma down_run:
  "handler down_world (demo_event '' '') Map.empty =
     (fst (handler down_world (demo_event '' '') Map.empty),
      fst (snd (handler down_world (demo_event '' '') Map.empty)),
      [CacheGet [], StoreQuery []])"
  using down_run_effects by (simp add: prod_eq_iff)

lemma blank_run:
  "handler down_world (demo_event [CHR 0xA0, CHR 0x09]) Map.empty =
     (fst (handler down_world (demo_event [CHR 0xA0, CHR 0x09]) Map.empty),
      fst (snd (handler down_world (demo_event [CHR 0xA0, CHR 0x09]) Map.empty)),
      [CacheGet [], StoreQuery []])"
  using blank_run_effects by (simp add: prod_eq_iff)

lemma down_run_status:
  "statusCode (fst (handler down_world (demo_event '' '') Map.empty)) = 500"
  by code_simp

lemma demo_item_valid: "validateInput accept_all demo_item"
  by code_simp

lemma demo_error_reply_marked: "includes_str (toLowerCase demo_error_reply) error_marker"
  by code_simp

lemma demo_worlds [simp]:
  "put_item stored_world item = PutDone"
  "ajv_formats stored_world = accept_all"
  "toISOString stored_world = ''2024-01-01T00:00:00.000Z''"
  "now_set stored_world = 0"
  "now_get stored_world = 0"
  "sha256_hex stored_world = rev"
  "query_by_name stored_world key = QueryItems None"
  "chat_completion stored_world name = Some demo_reply"
  "JSON_parse stored_world = demo_parse"
  "chat_completion marker_world name = Some demo_error_reply"
  "query_by_name marker_world key = QueryItems (Some [])"
  "sha256_hex marker_world = rev"
  "now_get marker_world = 0"
  "query_by_name down_world key = QueryThrows"
  "sha256_hex down_world = rev"
  "now_get down_world = 0"
  by (simp_all add: stored_world_def marker_world_def down_world_def demo_world_def)

lemma demo_event_name [simp]: "searchName_of (demo_event name) = Some name"
  by (simp add: searchName_of_def demo_event_def)

lemma empty_cache_misses [simp]: "\<not> truthy (fst (getCachedResponse now key Map.empty))"
  by (simp add: getCachedResponse_def)




section \<open>Instances of the theorems\<close>


theorem system_fields_round_trip_witness:
  "validateInput (ajv_formats stored_world) demo_item \<and>
   ajv_formats stored_world ''date-time'' (toISOString stored_world) \<and>
   (\<exists>stored. assign_system_fields stored_world ''fe'' demo_item = Inr stored \<and>
             validateStorage (ajv_formats stored_world) stored) \<and>
   get_prop demo_item ''ItemID'' = None \<and>
   \<not> validateStorage accept_all demo_item"
proof -
  have h: "validateInput (ajv_formats stored_world) demo_item \<and>
      ajv_formats stored_world ''date-time'' (toISOString stored_world)"
    using demo_item_valid by (simp add: accept_all_def)
  have g: "get_prop demo_item ''ItemID'' = None" by (simp add: demo_item_def)
  from system_fields_round_trip [of stored_world demo_item "''fe''" demo_item accept_all] h g
  show ?thesis by simp
qed


theorem validateInput_closed_witness:
  "''Extra'' \<in> fst ` set [(''ItemType'', JStr ''nutrient''), (''Name'', JStr ''Iron''), (''Extra'', JNull)] \<and>
   ''Extra'' \<notin> fst ` set inputSchema_properties \<and>
   \<not> validateInput accept_all
        (JObj [(''ItemType'', JStr ''nutrient''), (''Name'', JStr ''Iron''), (''Extra'', JNull)])"
proof -
  have a: "''Extra'' \<in> fst ` set [(''ItemType'', JStr ''nutrient''), (''Name'', JStr ''Iron''),
      (''Extra'', JNull)]" by simp
  have b: "''Extra'' \<notin> fst ` set inputSchema_properties" unfolding input_names by simp
  from validateInput_closed [OF a b] a b show ?thesis by simp
qed

theorem error_marker_short_circuit_witness:
  "statusCode (fst (handler marker_world (demo_event ''tar'') Map.empty)) = 404 \<and>
   fst (snd (handler marker_world (demo_event ''tar'') Map.empty)) = Map.empty"
proof -
  have g: "Generate ''tar'' \<in> set [CacheGet ''rat'', StoreQuery ''tar'', Generate ''tar'']"
    by simp
  have c: "chat_completion marker_world ''tar'' = Some demo_error_reply" by simp
  from error_marker_short_circuit [OF marker_run g c demo_error_reply_marked]
  show ?thesis by simp
qed

theorem cache_untouched_on_error_witness:
  "statusCode (fst (handler down_world (demo_event '' '') Map.empty)) \<noteq> 200 \<and>
   fst (snd (handler down_world (demo_event '' '') Map.empty)) = Map.empty"
  using cache_untouched_on_error [OF down_run] down_run_status by simp

theorem whitespace_name_proceeds_witness:
  "statusCode (fst (handler down_world (demo_event [CHR 0xA0, CHR 0x09]) Map.empty)) = 500 \<and>
   normalizeName [CHR 0xA0, CHR 0x09] = [] \<and>
   fst (snd (handler down_world (demo_event [CHR 0xA0, CHR 0x09]) Map.empty)) = Map.empty"
proof -
  have w: "\<forall>x \<in> set [CHR 0xA0, CHR 0x09]. isWhiteSpace x" by (simp add: isWhiteSpace_def)
  have n: "[CHR 0xA0, CHR 0x09] \<noteq> []" by simp
  note t = whitespace_name_proceeds [OF blank_run demo_event_name n w]
  note miss = t [THEN conjunct2, THEN conjunct2, THEN conjunct2, THEN conjunct1, rule_format]
  from miss t [THEN conjunct2, THEN conjunct1] show ?thesis by simp
qed

end
